theory Spec2Isabelle
  imports Complex_Main
begin

section \<open>Python values seen by the handlers of app.py\<close>

text \<open>
  A raised Python exception: its class name and the text that \<open>str(e)\<close> gives.
  Every exception of this model is an instance of \<open>Exception\<close> (werkzeug's
  \<open>HTTPException\<close>, numpy's and the classifier's errors, \<open>TypeError\<close>,
  \<open>AttributeError\<close>, \<open>IndexError\<close>), so \<open>except Exception\<close> catches it.
\<close>

datatype py_exception = PyException (exc_class: string) (exc_str: string)

text \<open>
  The object that \<open>request.get_json()\<close> returns: \<open>None\<close>, a bool, an int (unbounded),
  a float (abstracted to a real), a str, a list or a dict. A dict is an association
  list; the first binding of a key is the one looked up.
\<close>

datatype json =
    JNull
  | JBool bool
  | JInt int
  | JFloat real
  | JString string
  | JArray "json list"
  | JObject "(string \<times> json) list"

text \<open>
  One element of the array that the classifier's \<open>predict\<close> returns: a numpy
  integer, float or string scalar.
\<close>

datatype pyval = PyInt int | PyFloat real | PyStr string

definition quote :: string where
  "quote = [CHR 0x27]"

fun type_name :: "json \<Rightarrow> string" where
  "type_name JNull = ''NoneType''"
| "type_name (JBool b) = ''bool''"
| "type_name (JInt i) = ''int''"
| "type_name (JFloat r) = ''float''"
| "type_name (JString s) = ''str''"
| "type_name (JArray xs) = ''list''"
| "type_name (JObject kvs) = ''dict''"

text \<open>\<open>data.get(key)\<close>: only a dict has the method; a missing key gives \<open>None\<close>.\<close>

fun py_get :: "json \<Rightarrow> string \<Rightarrow> py_exception + json" where
  "py_get (JObject kvs) k = Inr (case map_of kvs k of None \<Rightarrow> JNull | Some v \<Rightarrow> v)"
| "py_get d k = Inl (PyException ''AttributeError''
     (quote @ type_name d @ quote @ '' object has no attribute '' @ quote @ ''get'' @ quote))"

text \<open>Truth value of an object, as \<open>not features\<close> tests it.\<close>

fun py_truthy :: "json \<Rightarrow> bool" where
  "py_truthy JNull = False"
| "py_truthy (JBool b) = b"
| "py_truthy (JInt i) = (i \<noteq> 0)"
| "py_truthy (JFloat r) = (r \<noteq> 0)"
| "py_truthy (JString s) = (s \<noteq> [])"
| "py_truthy (JArray xs) = (xs \<noteq> [])"
| "py_truthy (JObject kvs) = (kvs \<noteq> [])"

text \<open>\<open>len(features)\<close>: defined for str, list and dict; a \<open>TypeError\<close> otherwise.\<close>

fun py_len :: "json \<Rightarrow> py_exception + nat" where
  "py_len (JString s) = Inr (length s)"
| "py_len (JArray xs) = Inr (length xs)"
| "py_len (JObject kvs) = Inr (length (remdups (map fst kvs)))"
| "py_len v = Inl (PyException ''TypeError''
     (''object of type '' @ quote @ type_name v @ quote @ '' has no len()''))"

text \<open>\<open>a[0]\<close> on the one-dimensional array of predictions.\<close>

fun first_item :: "pyval list \<Rightarrow> py_exception + pyval" where
  "first_item [] = Inl (PyException ''IndexError''
     ''index 0 is out of bounds for axis 0 with size 0'')"
| "first_item (v # vs) = Inr v"

text \<open>
  A list subscript first asks the object for an integer (\<open>__index__\<close>): integers have
  one, floats and strings do not, and the error names the numpy type.
\<close>

fun py_index :: "pyval \<Rightarrow> py_exception + int" where
  "py_index (PyInt i) = Inr i"
| "py_index (PyFloat r) = Inl (PyException ''TypeError''
     ''list indices must be integers or slices, not numpy.float64'')"
| "py_index (PyStr s) = Inl (PyException ''TypeError''
     ''list indices must be integers or slices, not numpy.str_'')"

text \<open>
  \<open>xs[i]\<close> on a Python list. The index must fit a signed 64-bit integer; a negative
  index counts from the end.
\<close>

definition list_getitem :: "'b list \<Rightarrow> int \<Rightarrow> py_exception + 'b" where
  "list_getitem xs i =
     (if i < - 9223372036854775808 \<or> 9223372036854775808 \<le> i then
        Inl (PyException ''IndexError'' ''cannot fit 'int' into an index-sized integer'')
      else
        let n = int (length xs); j = (if i < 0 then i + n else i)
        in if 0 \<le> j \<and> j < n then Inr (xs ! nat j)
           else Inl (PyException ''IndexError'' ''list index out of range''))"

text \<open>\<open>int(x)\<close> on a float truncates toward zero.\<close>

definition int_of_float :: "real \<Rightarrow> int" where
  "int_of_float x = (if 0 \<le> x then \<lfloor>x\<rfloor> else \<lceil>x\<rceil>)"

section \<open>Responses\<close>

datatype content = JsonBody json | HtmlBody string

record http_response =
  status :: nat
  body :: content

definition jsonify :: "(string \<times> json) list \<Rightarrow> http_response" where
  "jsonify d = \<lparr>status = 200, body = JsonBody (JObject d)\<rparr>"

text \<open>A view that returns the pair \<open>(response, code)\<close> sets the status code.\<close>

definition with_status :: "http_response \<Rightarrow> nat \<Rightarrow> http_response" where
  "with_status r c = r\<lparr>status := c\<rparr>"

section \<open>Process-wide state and the world outside\<close>

text \<open>
  The module's globals and the lines printed so far. The handle \<open>ai_model\<close> is
  \<open>None\<close> or the object (type \<open>'h\<close>) that \<open>joblib.load\<close> returned.
\<close>

record 'h process =
  ai_model :: "'h option"
  CLASS_LABELS :: "string list"
  stdout :: "string list"

text \<open>
  A well-behaved classifier: its truth value is \<open>True\<close> (it defines neither
  \<open>__bool__\<close> nor \<open>__len__\<close>, or is a fitted ensemble), and its \<open>predict\<close> is a
  function from the array built by numpy (type \<open>'a\<close>) to the array of predictions,
  or an exception. Objects without these two properties are treated further below.
\<close>

datatype 'a classifier = Classifier (predict_method: "'a \<Rightarrow> py_exception + pyval list")

text \<open>
  What one call of a handler reads from outside the module: \<open>np.array(_, dtype=np.float32)\<close>
  and \<open>time.time()\<close>. The request carries what \<open>request.get_json()\<close> does for it:
  the parsed object, or the exception werkzeug raises.
\<close>

record 'a externals =
  np_array :: "json \<Rightarrow> py_exception + 'a"
  time_time :: real

record request =
  get_json :: "py_exception + json"

datatype call =
    Call_get_json | Call_np_array | Call_model_predict | Call_time_time
  | Call_render_template_string

section \<open>Module start-up (lines 13 to 30)\<close>

definition MODEL_FILE :: string where
  "MODEL_FILE = ''model.joblib''"

definition fresh :: "'h process" where
  "fresh = \<lparr>ai_model = None, CLASS_LABELS = [], stdout = []\<rparr>"

text \<open>
  The statements of the module body that touch the process state: an assignment to one
  of the two globals, or a \<open>print\<close>. Executing one updates the state.
\<close>

datatype 'h statement =
    Assign_CLASS_LABELS "string list"
  | Assign_ai_model "'h option"
  | Print string

fun execute :: "'h process \<Rightarrow> 'h statement \<Rightarrow> 'h process" where
  "execute p (Assign_CLASS_LABELS labels) = p\<lparr>CLASS_LABELS := labels\<rparr>"
| "execute p (Assign_ai_model v) = p\<lparr>ai_model := v\<rparr>"
| "execute p (Print line) = p\<lparr>stdout := stdout p @ [line]\<rparr>"

text \<open>
  The \<open>try\<close> block of lines 19 to 26 up to the assignment: \<open>path_exists\<close> is
  \<open>os.path.exists(MODEL_FILE)\<close>, \<open>joblib_load\<close> is what \<open>joblib.load(MODEL_FILE)\<close>
  does. It raises, or yields the object to assign.
\<close>

definition load_model :: "bool \<Rightarrow> (py_exception + 'h) \<Rightarrow> py_exception + 'h" where
  "load_model path_exists joblib_load =
     (if \<not> path_exists then
        Inl (PyException ''FileNotFoundError''
          (''Model file '' @ quote @ MODEL_FILE @ quote @ '' not found. Please run ''
            @ quote @ ''create_model.py'' @ quote @ '' first.''))
      else joblib_load)"

text \<open>The statements that start-up executes, in order, on each of its paths.\<close>

definition startup_statements :: "bool \<Rightarrow> (py_exception + 'h) \<Rightarrow> 'h statement list" where
  "startup_statements path_exists joblib_load =
     Assign_CLASS_LABELS [''Setosa'', ''Versicolor'', ''Virginica''] #
     (case load_model path_exists joblib_load of
        Inr m \<Rightarrow>
          [Assign_ai_model (Some m),
           Print (''Successfully loaded model from '' @ MODEL_FILE)]
      | Inl e \<Rightarrow>
          [Assign_ai_model None,
           Print (''Error loading model: '' @ exc_str e),
           Print ''The API will not function until the model is correctly saved.''])"

definition startup :: "bool \<Rightarrow> (py_exception + 'h) \<Rightarrow> 'h process" where
  "startup path_exists joblib_load =
     foldl execute fresh (startup_statements path_exists joblib_load)"

fun writes_ai_model :: "'h statement \<Rightarrow> bool" where
  "writes_ai_model (Assign_ai_model v) = True"
| "writes_ai_model st = False"

section \<open>The prediction handler (lines 34 to 72)\<close>

definition model_not_loaded :: http_response where
  "model_not_loaded =
     with_status (jsonify [(''error'', JString ''Model not loaded on server.'')]) 503"

definition invalid_input :: http_response where
  "invalid_input =
     with_status (jsonify [(''error'',
       JString ''Invalid input: features must be a list of 4 numerical values.'')]) 400"

definition server_error :: "py_exception \<Rightarrow> http_response" where
  "server_error e =
     with_status (jsonify [(''success'', JBool False),
       (''error'', JString (''Prediction failed due to server error: '' @ exc_str e))]) 500"

definition prediction_result :: "int \<Rightarrow> string \<Rightarrow> real \<Rightarrow> http_response" where
  "prediction_result prediction_index predicted_label now =
     jsonify [(''success'', JBool True),
              (''prediction_index'', JInt prediction_index),
              (''predicted_label'', JString predicted_label),
              (''timestamp'', JInt (int_of_float now))]"

text \<open>
  The body of the \<open>try\<close> block: what it returns or raises, and the outside calls it
  made, in order.
\<close>

definition predict_try ::
  "'a classifier process \<Rightarrow> 'a classifier \<Rightarrow> 'a externals \<Rightarrow> request
     \<Rightarrow> (py_exception + http_response) \<times> call list" where
  "predict_try p m ext req =
     (case get_json req of
        Inl e \<Rightarrow> (Inl e, [Call_get_json])
      | Inr data \<Rightarrow>
     (case py_get data ''features'' of
        Inl e \<Rightarrow> (Inl e, [Call_get_json])
      | Inr features \<Rightarrow>
     if \<not> py_truthy features then (Inr invalid_input, [Call_get_json])
     else
     (case py_len features of
        Inl e \<Rightarrow> (Inl e, [Call_get_json])
      | Inr n \<Rightarrow>
     if n \<noteq> 4 then (Inr invalid_input, [Call_get_json])
     else
     (case np_array ext (JArray [features]) of
        Inl e \<Rightarrow> (Inl e, [Call_get_json, Call_np_array])
      | Inr input_array \<Rightarrow>
     (case predict_method m input_array of
        Inl e \<Rightarrow> (Inl e, [Call_get_json, Call_np_array, Call_model_predict])
      | Inr predictions \<Rightarrow>
     (case first_item predictions of
        Inl e \<Rightarrow> (Inl e, [Call_get_json, Call_np_array, Call_model_predict])
      | Inr prediction_index \<Rightarrow>
     (case py_index prediction_index of
        Inl e \<Rightarrow> (Inl e, [Call_get_json, Call_np_array, Call_model_predict])
      | Inr i \<Rightarrow>
     (case list_getitem (CLASS_LABELS p) i of
        Inl e \<Rightarrow> (Inl e, [Call_get_json, Call_np_array, Call_model_predict])
      | Inr predicted_label \<Rightarrow>
          (Inr (prediction_result i predicted_label (time_time ext)),
           [Call_get_json, Call_np_array, Call_model_predict, Call_time_time])))))))))"

text \<open>
  One call of \<open>predict\<close>: the response, or the exception that leaves the view; the
  outside calls made; the process state after the call.
\<close>

record 'h handled =
  outcome :: "py_exception + http_response"
  calls :: "call list"
  after :: "'h process"

text \<open>
  The handler for a handle that is \<open>None\<close> or a well-behaved classifier, with library
  calls that are functions: the test \<open>not ai_model\<close> of line 37 is then the test for
  \<open>None\<close>.
\<close>

definition predict ::
  "'a externals \<Rightarrow> request \<Rightarrow> 'a classifier process \<Rightarrow> 'a classifier handled" where
  "predict ext req p =
     (case ai_model p of
        None \<Rightarrow> \<lparr>outcome = Inr model_not_loaded, calls = [], after = p\<rparr>
      | Some m \<Rightarrow>
          (case predict_try p m ext req of
             (Inr r, cs) \<Rightarrow> \<lparr>outcome = Inr r, calls = cs, after = p\<rparr>
           | (Inl e, cs) \<Rightarrow> \<lparr>outcome = Inr (server_error e), calls = cs, after = p\<rparr>))"

section \<open>The prediction handler for any loaded object\<close>

text \<open>
  What follows drops the two restrictions of \<open>predict\<close>. The loaded object may be any
  Python object: its truth test (\<open>__bool__\<close> or \<open>__len__\<close>) and its \<open>predict\<close> are
  code that may raise and may change the world outside the module (type \<open>'w\<close>: the
  object's own fields, numpy's and Flask's internals, the clock). So may the library
  calls. An action runs on a state and returns a value or raises.
\<close>

type_synonym ('s, 'r) action = "'s \<Rightarrow> (py_exception + 'r) \<times> 's"

definition py_return :: "'r \<Rightarrow> ('s, 'r) action" where
  "py_return x s = (Inr x, s)"

definition py_raise :: "py_exception \<Rightarrow> ('s, 'r) action" where
  "py_raise e s = (Inl e, s)"

text \<open>One statement after another: an exception of the first skips the rest.\<close>

definition and_then :: "('s, 'q) action \<Rightarrow> ('q \<Rightarrow> ('s, 'r) action) \<Rightarrow> ('s, 'r) action" where
  "and_then m f s = (case m s of (Inl e, s') \<Rightarrow> (Inl e, s') | (Inr x, s') \<Rightarrow> f x s')"

text \<open>\<open>try: m except Exception as e: h e\<close>.\<close>

definition try_except ::
  "('s, 'r) action \<Rightarrow> (py_exception \<Rightarrow> ('s, 'r) action) \<Rightarrow> ('s, 'r) action" where
  "try_except m h s = (case m s of (Inl e, s') \<Rightarrow> h e s' | (Inr x, s') \<Rightarrow> (Inr x, s'))"

text \<open>
  The state of a call is the module's state and the world outside. The handler's own
  steps are: reading a global, a computation on local values that may raise, and a call
  of outside code, which sees and changes the world only.
\<close>

definition read_global :: "('h process \<Rightarrow> 'r) \<Rightarrow> ('h process \<times> 'w, 'r) action" where
  "read_global var s = (Inr (var (fst s)), s)"

definition local_step :: "py_exception + 'r \<Rightarrow> ('s, 'r) action" where
  "local_step x s = (x, s)"

definition outside_call ::
  "('w \<Rightarrow> (py_exception + 'r) \<times> 'w) \<Rightarrow> ('h process \<times> 'w, 'r) action" where
  "outside_call code s = (case code (snd s) of (x, w') \<Rightarrow> (x, (fst s, w')))"

datatype ('a, 'w) py_object =
  PyObject (truth_value: "'w \<Rightarrow> (py_exception + bool) \<times> 'w")
           (predict_call: "'a \<Rightarrow> 'w \<Rightarrow> (py_exception + pyval list) \<times> 'w")

record ('a, 'w) library =
  request_get_json :: "'w \<Rightarrow> (py_exception + json) \<times> 'w"
  numpy_array :: "json \<Rightarrow> 'w \<Rightarrow> (py_exception + 'a) \<times> 'w"
  clock :: "'w \<Rightarrow> (py_exception + real) \<times> 'w"

definition none_has_no_predict :: py_exception where
  "none_has_no_predict = PyException ''AttributeError''
     (quote @ ''NoneType'' @ quote @ '' object has no attribute '' @ quote @ ''predict'' @ quote)"

text \<open>Lines 41 to 65, statement by statement.\<close>

definition general_try ::
  "('a, 'w) library \<Rightarrow> (('a, 'w) py_object process \<times> 'w, http_response) action" where
  "general_try lib =
     and_then (outside_call (request_get_json lib)) (\<lambda>data.
     and_then (local_step (py_get data ''features'')) (\<lambda>features.
     if \<not> py_truthy features then py_return invalid_input
     else
     and_then (local_step (py_len features)) (\<lambda>n.
     if n \<noteq> 4 then py_return invalid_input
     else
     and_then (outside_call (numpy_array lib (JArray [features]))) (\<lambda>input_array.
     and_then (read_global ai_model) (\<lambda>handle.
     and_then (case handle of
                 None \<Rightarrow> py_raise none_has_no_predict
               | Some obj \<Rightarrow> outside_call (predict_call obj input_array)) (\<lambda>predictions.
     and_then (local_step (first_item predictions)) (\<lambda>prediction_index.
     and_then (read_global CLASS_LABELS) (\<lambda>labels.
     and_then (local_step (py_index prediction_index)) (\<lambda>i.
     and_then (local_step (list_getitem labels i)) (\<lambda>predicted_label.
     and_then (outside_call (clock lib)) (\<lambda>now.
     py_return (prediction_result i predicted_label now))))))))))))"

text \<open>
  Lines 37 to 72. The truth test of line 37 stands before the \<open>try\<close>: \<open>None\<close> is
  falsy without any call; for a loaded object the test calls the object's code.
\<close>

definition predict_general ::
  "('a, 'w) library \<Rightarrow> (('a, 'w) py_object process \<times> 'w, http_response) action" where
  "predict_general lib =
     and_then (read_global ai_model) (\<lambda>handle.
     case handle of
       None \<Rightarrow> py_return model_not_loaded
     | Some obj \<Rightarrow>
         and_then (outside_call (truth_value obj)) (\<lambda>truthy.
         if \<not> truthy then py_return model_not_loaded
         else try_except (general_try lib) (\<lambda>e. py_return (server_error e))))"

text \<open>
  A well-behaved classifier and function-like library calls, seen as a loaded object
  and a library that leave the world alone.
\<close>

definition as_object :: "'a classifier \<Rightarrow> ('a, 'w) py_object" where
  "as_object m = PyObject (\<lambda>w. (Inr True, w)) (\<lambda>a w. (predict_method m a, w))"

definition as_library :: "'a externals \<Rightarrow> request \<Rightarrow> ('a, 'w) library" where
  "as_library ext req =
     \<lparr>request_get_json = (\<lambda>w. (get_json req, w)),
      numpy_array = (\<lambda>v w. (np_array ext v, w)),
      clock = (\<lambda>w. (Inr (time_time ext), w))\<rparr>"

definition as_general :: "'a classifier process \<Rightarrow> ('a, 'w) py_object process" where
  "as_general p =
     \<lparr>ai_model = map_option as_object (ai_model p),
      CLASS_LABELS = CLASS_LABELS p, stdout = stdout p\<rparr>"

text \<open>An action keeps a part of the state when no run of it changes that part.\<close>

definition keeps :: "('s \<Rightarrow> 'k) \<Rightarrow> ('s, 'r) action \<Rightarrow> bool" where
  "keeps part m = (\<forall>s. part (snd (m s)) = part s)"

section \<open>The page handler (lines 78 to 229)\<close>

text \<open>The template literal of \<open>index\<close>, one list element for each source line.\<close>

definition html_content :: string where
  "html_content = concat
     [''\<newline>'',
      ''<!DOCTYPE html>\<newline>'',
      ''<html lang=\"en\">\<newline>'',
      ''<head>\<newline>'',
      ''    <meta charset=\"UTF-8\">\<newline>'',
      ''    <meta name=\"viewport\" content=\"width=device-width, initial-scale=1.0\">\<newline>'',
      ''    <title>Model Deployment Demo (Iris)</title>\<newline>'',
      ''    <script src=\"https://cdn.tailwindcss.com\"></script>\<newline>'',
      ''    <style>\<newline>'',
      ''        body { font-family: 'Inter', sans-serif; background-color: #f7f7f7; }\<newline>'',
      ''        .card { box-shadow: 0 10px 25px -5px rgba(0, 0, 0, 0.1), 0 0px 10px -5px rgba(0, 0, 0, 0.04); }\<newline>'',
      ''        input[type=\"number\"]:focus { border-color: #3b82f6; box-shadow: 0 0 0 3px rgba(59, 130, 246, 0.5); }\<newline>'',
      ''    </style>\<newline>'',
      ''</head>\<newline>'',
      ''<body class=\"min-h-screen flex items-center justify-center p-4\">\<newline>'',
      ''\<newline>'',
      ''    <div class=\"card w-full max-w-lg bg-white p-8 rounded-xl\">\<newline>'',
      ''        <h1 class=\"text-3xl font-extrabold text-gray-900 mb-6 text-center\">Iris Flower Classifier</h1>\<newline>'',
      ''        <p class=\"text-gray-600 mb-8 text-center\">\<newline>'',
      ''            Enter the four measurements below to predict the species (Setosa, Versicolor, or Virginica) using the backend model API.\<newline>'',
      ''        </p>\<newline>'',
      ''\<newline>'',
      ''        <div id=\"loading-spinner\" class=\"hidden text-center text-blue-500 mb-4\">\<newline>'',
      ''            <svg class=\"animate-spin h-6 w-6 mx-auto\" xmlns=\"http://www.w3.org/2000/svg\" fill=\"none\" viewBox=\"0 0 24 24\">\<newline>'',
      ''                <circle class=\"opacity-25\" cx=\"12\" cy=\"12\" r=\"10\" stroke=\"currentColor\" stroke-width=\"4\"></circle>\<newline>'',
      ''                <path class=\"opacity-75\" fill=\"currentColor\" d=\"M4 12a8 8 0 018-8V0C5.373 0 0 5.373 0 12h4zm2 5.291A7.962 7.962 0 014 12H0c0 3.042 1.135 5.824 3 7.938l3-2.647z\"></path>\<newline>'',
      ''            </svg>\<newline>'',
      ''            <p class=\"mt-2 text-sm\">Predicting...</p>\<newline>'',
      ''        </div>\<newline>'',
      ''\<newline>'',
      ''        <form id=\"predictionForm\" class=\"space-y-4\">\<newline>'',
      ''            <!-- Input Fields -->\<newline>'',
      ''            <div class=\"grid grid-cols-2 gap-4\">\<newline>'',
      ''                <div>\<newline>'',
      ''                    <label for=\"sepal_length\" class=\"block text-sm font-medium text-gray-700\">Sepal Length (cm)</label>\<newline>'',
      ''                    <input type=\"number\" step=\"0.1\" id=\"sepal_length\" value=\"5.1\" required class=\"mt-1 block w-full rounded-md border-gray-300 shadow-sm p-3 border\">\<newline>'',
      ''                </div>\<newline>'',
      ''                <div>\<newline>'',
      ''                    <label for=\"sepal_width\" class=\"block text-sm font-medium text-gray-700\">Sepal Width (cm)</label>\<newline>'',
      ''                    <input type=\"number\" step=\"0.1\" id=\"sepal_width\" value=\"3.5\" required class=\"mt-1 block w-full rounded-md border-gray-300 shadow-sm p-3 border\">\<newline>'',
      ''                </div>\<newline>'',
      ''                <div>\<newline>'',
      ''                    <label for=\"petal_length\" class=\"block text-sm font-medium text-gray-700\">Petal Length (cm)</label>\<newline>'',
      ''                    <input type=\"number\" step=\"0.1\" id=\"petal_length\" value=\"1.4\" required class=\"mt-1 block w-full rounded-md border-gray-300 shadow-sm p-3 border\">\<newline>'',
      ''                </div>\<newline>'',
      ''                <div>\<newline>'',
      ''                    <label for=\"petal_width\" class=\"block text-sm font-medium text-gray-700\">Petal Width (cm)</label>\<newline>'',
      ''                    <input type=\"number\" step=\"0.1\" id=\"petal_width\" value=\"0.2\" required class=\"mt-1 block w-full rounded-md border-gray-300 shadow-sm p-3 border\">\<newline>'',
      ''                </div>\<newline>'',
      ''            </div>\<newline>'',
      ''\<newline>'',
      ''            <button type=\"submit\" id=\"submitButton\" class=\"w-full py-3 px-4 border border-transparent rounded-md shadow-lg text-sm font-medium text-white bg-blue-600 hover:bg-blue-700 focus:outline-none focus:ring-2 focus:ring-offset-2 focus:ring-blue-500 transition duration-150 ease-in-out\">\<newline>'',
      ''                Get Prediction\<newline>'',
      ''            </button>\<newline>'',
      ''        </form>\<newline>'',
      ''\<newline>'',
      ''        <!-- Output Display -->\<newline>'',
      ''        <div id=\"resultContainer\" class=\"mt-8 pt-6 border-t border-gray-200\">\<newline>'',
      ''            <h2 class=\"text-xl font-semibold text-gray-800 mb-3\">Model Result:</h2>\<newline>'',
      ''            <div id=\"predictionOutput\" class=\"text-lg font-bold text-gray-900 bg-gray-50 p-4 rounded-lg border border-gray-100\">\<newline>'',
      ''                Awaiting input...\<newline>'',
      ''            </div>\<newline>'',
      ''            <div id=\"errorOutput\" class=\"text-sm text-red-600 mt-2 hidden\"></div>\<newline>'',
      ''        </div>\<newline>'',
      ''    </div>\<newline>'',
      ''\<newline>'',
      ''    <!-- The critical JavaScript section that handles API communication -->\<newline>'',
      ''    <script>\<newline>'',
      ''        document.getElementById('predictionForm').addEventListener('submit', async function(e) {\<newline>'',
      ''            e.preventDefault();\<newline>'',
      ''            \<newline>'',
      ''            // Get elements\<newline>'',
      ''            const form = e.target;\<newline>'',
      ''            const submitButton = document.getElementById('submitButton');\<newline>'',
      ''            const loadingSpinner = document.getElementById('loading-spinner');\<newline>'',
      ''            const predictionOutput = document.getElementById('predictionOutput');\<newline>'',
      ''            const errorOutput = document.getElementById('errorOutput');\<newline>'',
      ''\<newline>'',
      ''            // 1. Gather input data\<newline>'',
      ''            const features = [\<newline>'',
      ''                parseFloat(form.sepal_length.value),\<newline>'',
      ''                parseFloat(form.sepal_width.value),\<newline>'',
      ''                parseFloat(form.petal_length.value),\<newline>'',
      ''                parseFloat(form.petal_width.value)\<newline>'',
      ''            ];\<newline>'',
      ''\<newline>'',
      ''            // 2. Prepare UI for request\<newline>'',
      ''            submitButton.disabled = true;\<newline>'',
      ''            submitButton.textContent = \"Processing...\";\<newline>'',
      ''            loadingSpinner.classList.remove('hidden');\<newline>'',
      ''            predictionOutput.textContent = \"Sending data to model...\";\<newline>'',
      ''            errorOutput.classList.add('hidden');\<newline>'',
      ''\<newline>'',
      ''            try {\<newline>'',
      ''                // 3. Send data to the Flask API endpoint using fetch\<newline>'',
      ''                // IMPORTANT: Since the Flask app serves the page, the API path is relative.\<newline>'',
      ''                const response = await fetch('/predict', {\<newline>'',
      ''                    method: 'POST',\<newline>'',
      ''                    headers: {\<newline>'',
      ''                        'Content-Type': 'application/json'\<newline>'',
      ''                    },\<newline>'',
      ''                    body: JSON.stringify({ features: features })\<newline>'',
      ''                });\<newline>'',
      ''\<newline>'',
      ''                // 4. Handle HTTP errors\<newline>'',
      ''                if (!response.ok) {\<newline>'',
      ''                    const errorJson = await response.json();\<newline>'',
      ''                    throw new Error(errorJson.error || `HTTP error! Status: ${response.status}`);\<newline>'',
      ''                }\<newline>'',
      ''\<newline>'',
      ''                // 5. Process successful response\<newline>'',
      ''                const result = await response.json();\<newline>'',
      ''                \<newline>'',
      ''                if (result.success) {\<newline>'',
      ''                    // Update the prediction display\<newline>'',
      ''                    predictionOutput.classList.remove('text-red-600');\<newline>'',
      ''                    predictionOutput.classList.add('text-green-600');\<newline>'',
      ''                    predictionOutput.innerHTML = `\<newline>'',
      ''                        <span class=\"text-2xl\">${result.predicted_label}</span> \<newline>'',
      ''                        <span class=\"text-gray-500 text-sm\">(Class Index: ${result.prediction_index})</span>\<newline>'',
      ''                    `;\<newline>'',
      ''                } else {\<newline>'',
      ''                    // Handle API internal error structure\<newline>'',
      ''                    throw new Error(result.error || 'An unknown error occurred in the API.');\<newline>'',
      ''                }\<newline>'',
      ''\<newline>'',
      ''            } catch (error) {\<newline>'',
      ''                // 6. Handle network or parsing errors\<newline>'',
      ''                console.error(\"Fetch error:\", error);\<newline>'',
      ''                predictionOutput.classList.remove('text-green-600');\<newline>'',
      ''                predictionOutput.classList.add('text-red-600');\<newline>'',
      ''                predictionOutput.textContent = \"Prediction Failed\";\<newline>'',
      ''                errorOutput.textContent = `Error: ${error.message}`;\<newline>'',
      ''                errorOutput.classList.remove('hidden');\<newline>'',
      ''            } finally {\<newline>'',
      ''                // 7. Reset UI state\<newline>'',
      ''                submitButton.disabled = false;\<newline>'',
      ''                submitButton.textContent = \"Get Prediction\";\<newline>'',
      ''                loadingSpinner.classList.add('hidden');\<newline>'',
      ''            }\<newline>'',
      ''        });\<newline>'',
      ''    </script>\<newline>'',
      ''\<newline>'',
      ''</body>\<newline>'',
      ''</html>\<newline>'',
      ''    '']"

text \<open>
  \<open>render_template_string\<close> is Jinja's renderer, from the template text and the context
  that Flask injects (request, session, configuration) to the document, or an exception.
  The view passes the template and nothing of its own.
\<close>

definition index ::
  "(string \<Rightarrow> 'c \<Rightarrow> py_exception + string) \<Rightarrow> 'c \<Rightarrow> 'h process \<Rightarrow> 'h handled" where
  "index render_template_string ctx p =
     (case render_template_string html_content ctx of
        Inl e \<Rightarrow> \<lparr>outcome = Inl e, calls = [Call_render_template_string], after = p\<rparr>
      | Inr doc \<Rightarrow>
          \<lparr>outcome = Inr \<lparr>status = 200, body = HtmlBody doc\<rparr>,
           calls = [Call_render_template_string], after = p\<rparr>)"

text \<open>
  A template is plain when Jinja's lexer finds nothing to do in it: it holds none of
  the opening delimiters (for an expression, a statement or a comment), no carriage
  return (the lexer rewrites every line ending to a line feed), and it does not end in
  a newline (the lexer strips one).
\<close>

fun jinja_delimiter :: "string \<Rightarrow> bool" where
  "jinja_delimiter (a # b # cs) =
     ((a = CHR ''{'' \<and> (b = CHR ''{'' \<or> b = CHR ''%'' \<or> b = CHR ''#''))
      \<or> jinja_delimiter (b # cs))"
| "jinja_delimiter cs = False"

fun ends_with_newline :: "string \<Rightarrow> bool" where
  "ends_with_newline [] = False"
| "ends_with_newline [c] = (c = CHR 0x0A)"
| "ends_with_newline (c # d # cs) = ends_with_newline (d # cs)"

fun carriage_return :: "string \<Rightarrow> bool" where
  "carriage_return [] = False"
| "carriage_return (c # cs) = (c = CHR 0x0D \<or> carriage_return cs)"

definition plain_template :: "string \<Rightarrow> bool" where
  "plain_template t =
     (\<not> jinja_delimiter t \<and> \<not> carriage_return t \<and> \<not> ends_with_newline t)"

text \<open>
  A renderer that reads its context: it appends the context to every template that is
  not plain.
\<close>

definition context_renderer :: "string \<Rightarrow> string \<Rightarrow> py_exception + string" where
  "context_renderer t ctx = (if plain_template t then Inr t else Inr (t @ ctx))"

section \<open>Vocabulary of the specification and concrete inputs\<close>

text \<open>A JSON number, and "a list of exactly 4 numeric values".\<close>

fun is_number :: "json \<Rightarrow> bool" where
  "is_number (JInt i) = True"
| "is_number (JFloat r) = True"
| "is_number v = False"

definition is_four_numbers :: "json \<Rightarrow> bool" where
  "is_four_numbers v =
     (case v of JArray fs \<Rightarrow> length fs = 4 \<and> list_all is_number fs | _ \<Rightarrow> False)"

text \<open>
  A stand-in for \<open>np.array(_, dtype=np.float32)\<close>, used where a theorem is run on a
  concrete request. A float32 is a real, an infinity or NaN; rounding to 24 bits is
  left out. An array is a scalar or a list of arrays of one shape.
\<close>

datatype npfloat = Finite real | PosInf | NegInf | NaN

datatype ndarray = Scalar npfloat | Axis "ndarray list"

definition float32 :: "real \<Rightarrow> npfloat" where
  "float32 r =
     (if 340282356779733661637539395458142568448 \<le> r then PosInf
      else if r \<le> - 340282356779733661637539395458142568448 then NegInf
      else Finite r)"

text \<open>
  \<open>float(s)\<close> for a string in plain decimal notation: an optional sign, digits, and an
  optional point with digits. The other spellings that \<open>float\<close> reads (exponents,
  underscores, blanks around the number, \<open>inf\<close>, \<open>nan\<close>) are not recognised here.
\<close>

text \<open>The value of a decimal digit, from its character code (48 is the code of 0).\<close>

definition digit :: "char \<Rightarrow> nat option" where
  "digit c =
     (let code = (of_char c :: nat)
      in if 48 \<le> code \<and> code \<le> 57 then Some (code - 48) else None)"

fun natural :: "string \<Rightarrow> nat \<Rightarrow> nat option" where
  "natural [] acc = Some acc"
| "natural (c # cs) acc =
     (case digit c of None \<Rightarrow> None | Some d \<Rightarrow> natural cs (10 * acc + d))"

definition unsigned_decimal :: "string \<Rightarrow> real option" where
  "unsigned_decimal s =
     (let whole = takeWhile (\<lambda>c. c \<noteq> CHR ''.'') s;
          rest = dropWhile (\<lambda>c. c \<noteq> CHR ''.'') s;
          fraction = (if rest = [] then [] else tl rest)
      in if whole = [] \<and> fraction = [] then None
         else case (natural whole 0, natural fraction 0) of
                (Some a, Some b) \<Rightarrow> Some (real a + real b / 10 ^ length fraction)
              | _ \<Rightarrow> None)"

definition float_of_string :: "string \<Rightarrow> real option" where
  "float_of_string s =
     (case s of
        [] \<Rightarrow> None
      | c # cs \<Rightarrow>
          if c = CHR ''-'' then map_option uminus (unsigned_decimal cs)
          else if c = CHR ''+'' then unsigned_decimal cs
          else unsigned_decimal s)"

text \<open>
  One element: \<open>None\<close> becomes NaN, a bool 0 or 1, a number itself (a Python int that
  rounds to 2^1024 or beyond has no double and raises), a string what \<open>float\<close> reads
  in it.
\<close>

fun float32_of :: "json \<Rightarrow> py_exception + npfloat" where
  "float32_of JNull = Inr NaN"
| "float32_of (JBool b) = Inr (Finite (if b then 1 else 0))"
| "float32_of (JInt i) =
     (if \<bar>i\<bar> < 2 ^ 1024 - 2 ^ 970 then Inr (float32 (real_of_int i))
      else Inl (PyException ''OverflowError'' ''int too large to convert to float''))"
| "float32_of (JFloat r) = Inr (float32 r)"
| "float32_of (JString s) =
     (case float_of_string s of
        Some r \<Rightarrow> Inr (float32 r)
      | None \<Rightarrow> Inl (PyException ''ValueError''
          (''could not convert string to float: '' @ quote @ s @ quote)))"
| "float32_of v = Inl (PyException ''TypeError''
     (''float() argument must be a string or a real number, not '' @ quote @ type_name v @ quote))"

fun shape :: "ndarray \<Rightarrow> nat list" where
  "shape (Scalar x) = []"
| "shape (Axis []) = [0]"
| "shape (Axis (y # ys)) = Suc (length ys) # shape y"

fun np_array_float32 :: "json \<Rightarrow> py_exception + ndarray"
  and np_array_rows :: "json list \<Rightarrow> py_exception + ndarray list" where
  "np_array_float32 (JArray xs) =
     (case np_array_rows xs of
        Inl e \<Rightarrow> Inl e
      | Inr ys \<Rightarrow>
          if list_all (\<lambda>y. shape y = shape (hd ys)) ys then Inr (Axis ys)
          else Inl (PyException ''ValueError''
                 ''setting an array element with a sequence.''))"
| "np_array_float32 JNull = map_sum id Scalar (float32_of JNull)"
| "np_array_float32 (JBool b) = map_sum id Scalar (float32_of (JBool b))"
| "np_array_float32 (JInt i) = map_sum id Scalar (float32_of (JInt i))"
| "np_array_float32 (JFloat r) = map_sum id Scalar (float32_of (JFloat r))"
| "np_array_float32 (JString s) = map_sum id Scalar (float32_of (JString s))"
| "np_array_float32 (JObject kvs) = map_sum id Scalar (float32_of (JObject kvs))"
| "np_array_rows [] = Inr []"
| "np_array_rows (x # xs) =
     (case np_array_float32 x of
        Inl e \<Rightarrow> Inl e
      | Inr y \<Rightarrow>
          (case np_array_rows xs of Inl e \<Rightarrow> Inl e | Inr ys \<Rightarrow> Inr (y # ys)))"

definition numpy_externals :: "ndarray externals" where
  "numpy_externals = \<lparr>np_array = np_array_float32, time_time = 1762200000.75\<rparr>"

text \<open>
  Cruder stand-ins: a coercion that hands every value on as it is, a classifier that
  answers \<open>out\<close> whatever the array, one whose \<open>predict\<close> always raises, and an
  ensemble that was never fitted: its \<open>__len__\<close> reads a field that is not there.
\<close>

definition stub_externals :: "json externals" where
  "stub_externals = \<lparr>np_array = Inr, time_time = 1762200000.75\<rparr>"

definition stub_classifier :: "pyval list \<Rightarrow> 'a classifier" where
  "stub_classifier out = Classifier (\<lambda>a. Inr out)"

definition failing_classifier :: "'a classifier" where
  "failing_classifier = Classifier (\<lambda>a. Inl (PyException ''ValueError''
     ''X has 4 features, but the model is expecting 2''))"

definition no_estimators :: py_exception where
  "no_estimators = PyException ''AttributeError''
     (quote @ ''RandomForestClassifier'' @ quote @ '' object has no attribute ''
       @ quote @ ''estimators_'' @ quote)"

definition unfitted_forest :: "('a, 'w) py_object" where
  "unfitted_forest = PyObject (\<lambda>w. (Inl no_estimators, w)) (\<lambda>a w. (Inl no_estimators, w))"

text \<open>
  A world that counts the calls made into it, with a library and a loaded object that
  answer as the stand-ins above do.
\<close>

definition counting_library :: "(json, nat) library" where
  "counting_library =
     \<lparr>request_get_json = (\<lambda>w. (Inr (JObject [(''features'',
          JArray [JFloat 6.3, JFloat 3.3, JFloat 6.0, JFloat 2.5])]), Suc w)),
      numpy_array = (\<lambda>v w. (Inr v, Suc w)),
      clock = (\<lambda>w. (Inr 1762200000.75, Suc w))\<rparr>"

definition counting_object :: "(json, nat) py_object" where
  "counting_object = PyObject (\<lambda>w. (Inr True, Suc w)) (\<lambda>a w. (Inr [PyInt 2], Suc w))"

definition iris_request :: request where
  "iris_request = \<lparr>get_json = Inr (JObject [(''features'',
      JArray [JFloat 6.3, JFloat 3.3, JFloat 6.0, JFloat 2.5])])\<rparr>"

definition short_request :: request where
  "short_request =
     \<lparr>get_json = Inr (JObject [(''features'', JArray [JInt 1, JInt 2, JInt 3])])\<rparr>"

definition words_request :: request where
  "words_request = \<lparr>get_json = Inr (JObject [(''features'',
      JArray [JString ''a'', JString ''b'', JString ''c'', JString ''d''])])\<rparr>"

definition digits_request :: request where
  "digits_request = \<lparr>get_json = Inr (JObject [(''features'',
      JArray [JString ''1'', JString ''2'', JString ''3'', JString ''4''])])\<rparr>"

definition mixed_request :: request where
  "mixed_request = \<lparr>get_json = Inr (JObject [(''features'',
      JArray [JInt 1, JInt 2, JInt 3, JBool True])])\<rparr>"

section \<open>Facts shared by the claims\<close>

lemma status_simps:
  "status model_not_loaded = 503" "status invalid_input = 400"
  "status (server_error e) = 500" "status (prediction_result i l t) = 200"
  by (simp_all add: model_not_loaded_def invalid_input_def server_error_def
      prediction_result_def jsonify_def with_status_def)

lemma startup_loaded:
  "startup True (Inr m) =
     \<lparr>ai_model = Some m, CLASS_LABELS = [''Setosa'', ''Versicolor'', ''Virginica''],
      stdout = [''Successfully loaded model from model.joblib'']\<rparr>"
  by (simp add: startup_def startup_statements_def load_model_def fresh_def MODEL_FILE_def)

lemma startup_failed:
  "ai_model (startup False l) = None" "ai_model (startup True (Inl e)) = None"
  by (simp_all add: startup_def startup_statements_def load_model_def fresh_def)

lemma outcome_predict_loaded:
  "ai_model p = Some m \<Longrightarrow>
   outcome (predict ext req p) =
     (case fst (predict_try p m ext req) of Inr r \<Rightarrow> Inr r | Inl e \<Rightarrow> Inr (server_error e))"
  by (simp add: predict_def split: prod.splits sum.splits)

lemma calls_predict_loaded:
  "ai_model p = Some m \<Longrightarrow> calls (predict ext req p) = snd (predict_try p m ext req)"
  by (simp add: predict_def split: prod.splits sum.splits)

text \<open>Once the truthiness and arity checks have passed, the \<open>try\<close> block is its tail.\<close>

lemma predict_try_accepted:
  assumes "get_json req = Inr (JObject kvs)" "map_of kvs ''features'' = Some f"
    "py_truthy f" "py_len f = Inr 4"
  shows "predict_try p m ext req =
     (case np_array ext (JArray [f]) of
        Inl e \<Rightarrow> (Inl e, [Call_get_json, Call_np_array])
      | Inr input_array \<Rightarrow>
     (case predict_method m input_array of
        Inl e \<Rightarrow> (Inl e, [Call_get_json, Call_np_array, Call_model_predict])
      | Inr predictions \<Rightarrow>
     (case first_item predictions of
        Inl e \<Rightarrow> (Inl e, [Call_get_json, Call_np_array, Call_model_predict])
      | Inr prediction_index \<Rightarrow>
     (case py_index prediction_index of
        Inl e \<Rightarrow> (Inl e, [Call_get_json, Call_np_array, Call_model_predict])
      | Inr i \<Rightarrow>
     (case list_getitem (CLASS_LABELS p) i of
        Inl e \<Rightarrow> (Inl e, [Call_get_json, Call_np_array, Call_model_predict])
      | Inr predicted_label \<Rightarrow>
          (Inr (prediction_result i predicted_label (time_time ext)),
           [Call_get_json, Call_np_array, Call_model_predict, Call_time_time]))))))"
  using assms by (simp add: predict_try_def)

lemma list_getitem_beyond:
  "int (length xs) \<le> i \<Longrightarrow> i < 9223372036854775808 \<Longrightarrow>
   list_getitem xs i = Inl (PyException ''IndexError'' ''list index out of range'')"
  by (simp add: list_getitem_def)

lemma list_getitem_too_large:
  "9223372036854775808 \<le> i \<Longrightarrow>
   list_getitem xs i =
     Inl (PyException ''IndexError'' ''cannot fit 'int' into an index-sized integer'')"
  by (simp add: list_getitem_def)

lemma html_content_no_delimiter: "\<not> jinja_delimiter html_content"
  unfolding html_content_def by simp

lemma html_content_no_carriage_return: "\<not> carriage_return html_content"
  unfolding html_content_def by simp

lemma html_content_no_final_newline: "\<not> ends_with_newline html_content"
  unfolding html_content_def by simp

lemma plain_html_content: "plain_template html_content"
  by (simp add: plain_template_def html_content_no_delimiter
      html_content_no_carriage_return html_content_no_final_newline)

text \<open>How the steps of an action compose, and which parts of the state they keep.\<close>

lemma keeps_return: "keeps part (py_return x)"
  by (simp add: keeps_def py_return_def)

lemma keeps_raise: "keeps part (py_raise e)"
  by (simp add: keeps_def py_raise_def)

lemma keeps_local_step: "keeps part (local_step x)"
  by (simp add: keeps_def local_step_def)

lemma keeps_read_global: "keeps part (read_global var)"
  by (simp add: keeps_def read_global_def)

lemma keeps_outside_module: "keeps fst (outside_call code)"
  by (simp add: keeps_def outside_call_def split: prod.splits)

lemma keeps_and_then:
  assumes "keeps part m" and "\<And>x. keeps part (f x)"
  shows "keeps part (and_then m f)"
proof -
  have "part (snd (and_then m f s)) = part s" for s
  proof (cases "m s")
    case (Pair r s')
    have mid: "part s' = part s"
      using assms(1) Pair by (auto simp add: keeps_def dest: spec[of _ s])
    show ?thesis
    proof (cases r)
      case (Inl e)
      then show ?thesis using Pair mid by (simp add: and_then_def)
    next
      case (Inr x)
      have "part (snd (f x s')) = part s'"
        using assms(2)[of x] by (simp add: keeps_def)
      then show ?thesis using Pair Inr mid by (simp add: and_then_def)
    qed
  qed
  then show ?thesis by (simp add: keeps_def)
qed

lemma keeps_try_except:
  assumes "keeps part m" and "\<And>e. keeps part (h e)"
  shows "keeps part (try_except m h)"
proof -
  have "part (snd (try_except m h s)) = part s" for s
  proof (cases "m s")
    case (Pair r s')
    have mid: "part s' = part s"
      using assms(1) Pair by (auto simp add: keeps_def dest: spec[of _ s])
    show ?thesis
    proof (cases r)
      case (Inl e)
      have "part (snd (h e s')) = part s'"
        using assms(2)[of e] by (simp add: keeps_def)
      then show ?thesis using Pair Inl mid by (simp add: try_except_def)
    next
      case (Inr x)
      then show ?thesis using Pair mid by (simp add: try_except_def)
    qed
  qed
  then show ?thesis by (simp add: keeps_def)
qed

lemma keeps_if: "keeps part a \<Longrightarrow> keeps part b \<Longrightarrow> keeps part (if c then a else b)"
  by simp

lemma keeps_case_option:
  "keeps part a \<Longrightarrow> (\<And>x. keeps part (b x)) \<Longrightarrow>
   keeps part (case v of None \<Rightarrow> a | Some x \<Rightarrow> b x)"
  by (cases v) simp_all

text \<open>The \<open>try\<close> block and the handler only read the module's state.\<close>

lemma general_try_keeps_module: "keeps fst (general_try lib)"
  unfolding general_try_def
  by (intro keeps_and_then keeps_if keeps_case_option keeps_return keeps_raise
      keeps_local_step keeps_read_global keeps_outside_module)

lemma predict_general_keeps_module: "keeps fst (predict_general lib)"
  unfolding predict_general_def
  by (intro keeps_and_then keeps_try_except keeps_if keeps_case_option keeps_return
      keeps_read_global keeps_outside_module general_try_keeps_module)

text \<open>A call of outside code that leaves the world alone is a local step.\<close>

lemma outside_call_quiet:
  "snd (code w) = w \<Longrightarrow> outside_call code (p, w) = (fst (code w), (p, w))"
  by (cases "code w") (simp add: outside_call_def)

text \<open>
  On a well-behaved classifier and function-like library calls the general handler
  is \<open>predict\<close>.
\<close>

lemma general_try_pure:
  "ai_model p = Some m \<Longrightarrow>
   general_try (as_library ext req) (as_general p, w) =
     (fst (predict_try p m ext req), (as_general p, w))"
  by (simp add: general_try_def predict_try_def as_library_def as_general_def as_object_def
      and_then_def read_global_def local_step_def outside_call_def py_return_def
      split: sum.splits)

lemma predict_general_pure:
  "predict_general (as_library ext req) (as_general p, w) =
     (outcome (predict ext req p), (as_general p, w))"
proof (cases "ai_model p")
  case None
  then show ?thesis
    by (simp add: predict_general_def predict_def as_general_def and_then_def
        read_global_def py_return_def)
next
  case (Some m)
  have test: "truth_value (as_object m) = (\<lambda>w. (Inr True, w))"
    by (simp add: as_object_def)
  have handle: "ai_model (as_general p :: ('a, 'b) py_object process) = Some (as_object m)"
    using Some by (simp add: as_general_def)
  show ?thesis
    using handle
    by (simp add: predict_general_def and_then_def read_global_def outside_call_def test
        try_except_def general_try_pure[OF Some] outcome_predict_loaded[OF Some] py_return_def
        split: sum.splits)
qed

text \<open>
  Past the truth test every path ends in a response: the \<open>try\<close> block returns one
  with status 200 or 400 or raises, and the \<open>except\<close> clause turns what it raises into
  one with status 500.
\<close>

lemma general_try_status:
  "fst (general_try lib s) = Inr r \<Longrightarrow> status r = 200 \<or> status r = 400"
  by (auto simp add: general_try_def and_then_def read_global_def local_step_def
      outside_call_def py_return_def py_raise_def status_simps
      split: sum.splits prod.splits option.splits if_splits)

lemma try_block_answers:
  "\<exists>r. fst (try_except (general_try lib) (\<lambda>e. py_return (server_error e)) s) = Inr r
       \<and> status r \<in> {200, 400, 500}"
proof -
  obtain x s' where run: "general_try lib s = (x, s')"
    by (cases "general_try lib s") auto
  show ?thesis
  proof (cases x)
    case (Inl e)
    then show ?thesis using run by (simp add: try_except_def py_return_def status_simps)
  next
    case (Inr r)
    then have "status r = 200 \<or> status r = 400"
      using run general_try_status[of lib s r] by simp
    then show ?thesis using run Inr by (auto simp add: try_except_def)
  qed
qed

lemma predict_general_answers:
  assumes "ai_model p = None \<or> (\<exists>obj b. ai_model p = Some obj \<and> fst (truth_value obj w) = Inr b)"
  shows "\<exists>r. fst (predict_general lib (p, w)) = Inr r \<and> status r \<in> {200, 400, 500, 503}"
proof (cases "ai_model p")
  case None
  then show ?thesis
    by (simp add: predict_general_def and_then_def read_global_def py_return_def status_simps)
next
  case (Some obj)
  then obtain b where test: "fst (truth_value obj w) = Inr b"
    using assms by auto
  obtain w' where run: "truth_value obj w = (Inr b, w')"
    using test by (cases "truth_value obj w") simp
  show ?thesis
  proof (cases b)
    case False
    then show ?thesis
      using Some run
      by (simp add: predict_general_def and_then_def read_global_def outside_call_def
          py_return_def status_simps)
  next
    case True
    obtain r where "fst (try_except (general_try lib) (\<lambda>e. py_return (server_error e)) (p, w')) = Inr r"
      and "status r \<in> {200, 400, 500}"
      using try_block_answers[of lib "(p, w')"] by blast
    then show ?thesis
      using Some run True
      by (auto simp add: predict_general_def and_then_def read_global_def outside_call_def)
  qed
qed

text \<open>The stand-in for numpy on the rows used below.\<close>

lemma digits_row:
  "np_array numpy_externals
     (JArray [JArray [JString ''1'', JString ''2'', JString ''3'', JString ''4'']]) =
     Inr (Axis [Axis [Scalar (Finite 1), Scalar (Finite 2), Scalar (Finite 3),
                      Scalar (Finite 4)]])"
  by (simp add: numpy_externals_def float_of_string_def unsigned_decimal_def digit_def
      float32_def)

lemma mixed_row:
  "np_array numpy_externals (JArray [JArray [JInt 1, JInt 2, JInt 3, JBool True]]) =
     Inr (Axis [Axis [Scalar (Finite 1), Scalar (Finite 2), Scalar (Finite 3),
                      Scalar (Finite 1)]])"
  by (simp add: numpy_externals_def float32_def)

lemma words_row:
  "np_array numpy_externals
     (JArray [JArray [JString ''a'', JString ''b'', JString ''c'', JString ''d'']]) =
     Inl (PyException ''ValueError''
       (''could not convert string to float: '' @ quote @ ''a'' @ quote))"
  by (simp add: numpy_externals_def float_of_string_def unsigned_decimal_def digit_def)

section \<open>The claims\<close>

text \<open>
  Claim C1. While the model handle is set, a request whose body is a JSON object with a
  \<open>features\<close> list of exactly 4 numbers, for which the classifier's first prediction is
  an integer that is a valid index into the 3-entry label table, is answered with
  status 200 and the JSON object holding \<open>success: true\<close>, \<open>prediction_index\<close> the
  classifier's output as an int, \<open>predicted_label\<close> the table entry at that index, and
  \<open>timestamp\<close> the current Unix time cut to whole seconds.
\<close>

theorem predict_success:
  assumes "ai_model p = Some m"
    and "length (CLASS_LABELS p) = 3"
    and "get_json req = Inr (JObject kvs)"
    and "map_of kvs ''features'' = Some (JArray fs)"
    and "length fs = 4" and "list_all is_number fs"
    and "np_array ext (JArray [JArray fs]) = Inr a"
    and "predict_method m a = Inr (PyInt i # rest)"
    and "0 \<le> i" and "i < 3"
  shows "outcome (predict ext req p) =
      Inr \<lparr>status = 200,
           body = JsonBody (JObject
             [(''success'', JBool True),
              (''prediction_index'', JInt i),
              (''predicted_label'', JString (CLASS_LABELS p ! nat i)),
              (''timestamp'', JInt (int_of_float (time_time ext)))])\<rparr>"
proof -
  have len: "py_len (JArray fs) = Inr 4" and tr: "py_truthy (JArray fs)"
    using assms(5) by auto
  have look: "list_getitem (CLASS_LABELS p) i = Inr (CLASS_LABELS p ! nat i)"
    using assms(2,9,10) by (simp add: list_getitem_def)
  show ?thesis
    using assms(1,7,8) look
    by (simp add: outcome_predict_loaded predict_try_accepted[OF assms(3,4) tr len]
        prediction_result_def jsonify_def)
qed

theorem predict_success_witness:
  "outcome (predict stub_externals iris_request (startup True (Inr (stub_classifier [PyInt 2])))) =
      Inr \<lparr>status = 200,
           body = JsonBody (JObject
             [(''success'', JBool True),
              (''prediction_index'', JInt 2),
              (''predicted_label'', JString ''Virginica''),
              (''timestamp'', JInt 1762200000)])\<rparr>"
  using predict_success[of "startup True (Inr (stub_classifier [PyInt 2]))"
      "stub_classifier [PyInt 2]" iris_request
      "[(''features'', JArray [JFloat 6.3, JFloat 3.3, JFloat 6.0, JFloat 2.5])]"
      "[JFloat 6.3, JFloat 3.3, JFloat 6.0, JFloat 2.5]" stub_externals
      "JArray [JArray [JFloat 6.3, JFloat 3.3, JFloat 6.0, JFloat 2.5]]" 2 "[]"]
  by (simp add: startup_loaded stub_externals_def stub_classifier_def iris_request_def
      int_of_float_def)

text \<open>
  Claim C2. With the 3-entry table, a class index of 3 or more makes the label lookup
  raise \<open>IndexError\<close>: "list index out of range", or from 2^63 on "cannot fit 'int'
  into an index-sized integer". The handler has nothing for this failure in
  particular: no bounds check precedes the lookup, and the answer is the one that the
  generic \<open>except\<close> clause builds from any exception, status 500 with the exception's
  text after the fixed prefix. The last valid index, 2, succeeds with status 200 and
  the label at position 2.
\<close>

theorem index_beyond_table:
  assumes "ai_model p = Some m"
    and "length (CLASS_LABELS p) = 3"
    and "get_json req = Inr (JObject kvs)"
    and "map_of kvs ''features'' = Some (JArray fs)"
    and "length fs = 4"
    and "np_array ext (JArray [JArray fs]) = Inr a"
    and "predict_method m a = Inr (PyInt i # rest)"
  shows "(3 \<le> i \<longrightarrow>
            list_getitem (CLASS_LABELS p) i =
              Inl (PyException ''IndexError''
                (if i < 9223372036854775808 then ''list index out of range''
                 else ''cannot fit 'int' into an index-sized integer''))
          \<and> outcome (predict ext req p) =
              Inr \<lparr>status = 500,
                   body = JsonBody (JObject
                     [(''success'', JBool False),
                      (''error'', JString
                         (''Prediction failed due to server error: '' @
                          (if i < 9223372036854775808 then ''list index out of range''
                           else ''cannot fit 'int' into an index-sized integer'')))])\<rparr>
          \<and> calls (predict ext req p) = [Call_get_json, Call_np_array, Call_model_predict])
       \<and> (i = 2 \<longrightarrow>
            outcome (predict ext req p) =
              Inr \<lparr>status = 200,
                   body = JsonBody (JObject
                     [(''success'', JBool True),
                      (''prediction_index'', JInt 2),
                      (''predicted_label'', JString (CLASS_LABELS p ! 2)),
                      (''timestamp'', JInt (int_of_float (time_time ext)))])\<rparr>)"
proof -
  have len: "py_len (JArray fs) = Inr 4" and tr: "py_truthy (JArray fs)"
    using assms(5) by auto
  note tail = predict_try_accepted[OF assms(3,4) tr len]
  have beyond: "list_getitem (CLASS_LABELS p) i =
      Inl (PyException ''IndexError''
        (if i < 9223372036854775808 then ''list index out of range''
         else ''cannot fit 'int' into an index-sized integer''))" if "3 \<le> i"
  proof (cases "i < 9223372036854775808")
    case True
    then show ?thesis using assms(2) that by (simp add: list_getitem_beyond)
  next
    case False
    then show ?thesis by (simp add: list_getitem_too_large)
  qed
  have last: "list_getitem (CLASS_LABELS p) 2 = Inr (CLASS_LABELS p ! 2)"
    using assms(2) by (simp add: list_getitem_def)
  have high: "outcome (predict ext req p) =
        Inr (server_error (PyException ''IndexError''
          (if i < 9223372036854775808 then ''list index out of range''
           else ''cannot fit 'int' into an index-sized integer'')))
      \<and> calls (predict ext req p) = [Call_get_json, Call_np_array, Call_model_predict]"
    if "3 \<le> i"
    using assms(1,6,7) beyond[OF that]
    by (simp add: outcome_predict_loaded calls_predict_loaded tail)
  have two: "outcome (predict ext req p) =
      Inr (prediction_result 2 (CLASS_LABELS p ! 2) (time_time ext))" if "i = 2"
    using assms(1,6,7) last that by (simp add: outcome_predict_loaded tail)
  show ?thesis
    using beyond high two
    by (simp add: server_error_def prediction_result_def jsonify_def with_status_def)
qed

theorem index_beyond_table_witness:
  "outcome (predict stub_externals iris_request
        (startup True (Inr (stub_classifier [PyInt 7])))) =
     Inr \<lparr>status = 500,
          body = JsonBody (JObject
            [(''success'', JBool False),
             (''error'', JString
                ''Prediction failed due to server error: list index out of range'')])\<rparr>
   \<and> outcome (predict stub_externals iris_request
        (startup True (Inr (stub_classifier [PyInt 9223372036854775808])))) =
     Inr \<lparr>status = 500,
          body = JsonBody (JObject
            [(''success'', JBool False),
             (''error'', JString
                ''Prediction failed due to server error: cannot fit 'int' into an index-sized integer'')])\<rparr>
   \<and> outcome (predict stub_externals iris_request
        (startup True (Inr (stub_classifier [PyInt 2])))) =
     Inr \<lparr>status = 200,
          body = JsonBody (JObject
            [(''success'', JBool True),
             (''prediction_index'', JInt 2),
             (''predicted_label'', JString ''Virginica''),
             (''timestamp'', JInt 1762200000)])\<rparr>"
  using index_beyond_table[of "startup True (Inr (stub_classifier [PyInt 7]))"
      "stub_classifier [PyInt 7]" iris_request
      "[(''features'', JArray [JFloat 6.3, JFloat 3.3, JFloat 6.0, JFloat 2.5])]"
      "[JFloat 6.3, JFloat 3.3, JFloat 6.0, JFloat 2.5]" stub_externals
      "JArray [JArray [JFloat 6.3, JFloat 3.3, JFloat 6.0, JFloat 2.5]]" 7 "[]"]
    index_beyond_table[of "startup True (Inr (stub_classifier [PyInt 9223372036854775808]))"
      "stub_classifier [PyInt 9223372036854775808]" iris_request
      "[(''features'', JArray [JFloat 6.3, JFloat 3.3, JFloat 6.0, JFloat 2.5])]"
      "[JFloat 6.3, JFloat 3.3, JFloat 6.0, JFloat 2.5]" stub_externals
      "JArray [JArray [JFloat 6.3, JFloat 3.3, JFloat 6.0, JFloat 2.5]]"
      9223372036854775808 "[]"]
    index_beyond_table[of "startup True (Inr (stub_classifier [PyInt 2]))"
      "stub_classifier [PyInt 2]" iris_request
      "[(''features'', JArray [JFloat 6.3, JFloat 3.3, JFloat 6.0, JFloat 2.5])]"
      "[JFloat 6.3, JFloat 3.3, JFloat 6.0, JFloat 2.5]" stub_externals
      "JArray [JArray [JFloat 6.3, JFloat 3.3, JFloat 6.0, JFloat 2.5]]" 2 "[]"]
  by (simp add: startup_loaded stub_externals_def stub_classifier_def iris_request_def
      int_of_float_def)

text \<open>
  Claim C3, as stated: a body that parses as JSON and whose \<open>features\<close> is not a list
  of exactly 4 numbers is answered with status 400. For the body \<open>{"features": 5}\<close>
  it is not: 5 is truthy, \<open>len(5)\<close> raises \<open>TypeError\<close>, and the answer is status 500.
\<close>

theorem invalid_features_counterexample:
  "\<not> is_four_numbers (JInt 5)
   \<and> outcome (predict stub_externals \<lparr>get_json = Inr (JObject [(''features'', JInt 5)])\<rparr>
        (startup True (Inr (stub_classifier [PyInt 0])))) =
      Inr \<lparr>status = 500,
           body = JsonBody (JObject
             [(''success'', JBool False),
              (''error'', JString
                 ''Prediction failed due to server error: object of type 'int' has no len()'')])\<rparr>"
  by (simp add: is_four_numbers_def startup_loaded outcome_predict_loaded predict_try_def
      server_error_def jsonify_def with_status_def quote_def)

text \<open>
  Claim C3, amended. While the model handle is set and the body parses as a JSON
  object, the handler answers with status 400 and the invalid-input message exactly
  when \<open>features\<close> is missing or falsy (null, false, zero, an empty string, list or
  object) or is a string, list or object whose length is not 4; and then the only
  outside call made is the parsing of the body: neither numpy's coercion nor the
  classifier's predict is invoked.
\<close>

theorem invalid_features_rejected:
  assumes "ai_model p = Some m"
    and "get_json req = Inr (JObject kvs)"
    and "features = (case map_of kvs ''features'' of None \<Rightarrow> JNull | Some v \<Rightarrow> v)"
  shows "(outcome (predict ext req p) =
            Inr \<lparr>status = 400,
                 body = JsonBody (JObject [(''error'', JString
                   ''Invalid input: features must be a list of 4 numerical values.'')])\<rparr>
          \<longleftrightarrow> (\<not> py_truthy features \<or> (\<exists>n. py_len features = Inr n \<and> n \<noteq> 4)))
       \<and> ((\<not> py_truthy features \<or> (\<exists>n. py_len features = Inr n \<and> n \<noteq> 4))
            \<longrightarrow> calls (predict ext req p) = [Call_get_json])"
  using assms
  by (auto simp add: outcome_predict_loaded calls_predict_loaded predict_try_def
      invalid_input_def server_error_def prediction_result_def jsonify_def with_status_def
      split: sum.splits)

theorem invalid_features_rejected_witness:
  "outcome (predict stub_externals short_request (startup True (Inr (stub_classifier [PyInt 0])))) =
      Inr \<lparr>status = 400,
           body = JsonBody (JObject [(''error'', JString
             ''Invalid input: features must be a list of 4 numerical values.'')])\<rparr>
   \<and> calls (predict stub_externals short_request
        (startup True (Inr (stub_classifier [PyInt 0])))) = [Call_get_json]"
  using invalid_features_rejected[of "startup True (Inr (stub_classifier [PyInt 0]))"
      "stub_classifier [PyInt 0]" short_request
      "[(''features'', JArray [JInt 1, JInt 2, JInt 3])]"
      "JArray [JInt 1, JInt 2, JInt 3]" stub_externals]
  by (simp add: startup_loaded short_request_def)

text \<open>
  Claim C4. If the model handle is unset, every call of the prediction handler
  returns status 503 with the message "Model not loaded on server.", whatever the
  request is, and makes no outside call: the body is not parsed and nothing is
  inferred.
\<close>

theorem model_unset_unavailable:
  assumes "ai_model p = None"
  shows "outcome (predict ext req p) =
           Inr \<lparr>status = 503,
                body = JsonBody (JObject [(''error'', JString ''Model not loaded on server.'')])\<rparr>
         \<and> calls (predict ext req p) = []"
  using assms by (simp add: predict_def model_not_loaded_def jsonify_def with_status_def)

theorem model_unset_unavailable_witness:
  "ai_model (startup False (Inr (stub_classifier [PyInt 0]))) = None
   \<and> outcome (predict stub_externals iris_request
        (startup False (Inr (stub_classifier [PyInt 0])))) =
           Inr \<lparr>status = 503,
                body = JsonBody (JObject [(''error'', JString ''Model not loaded on server.'')])\<rparr>
   \<and> calls (predict stub_externals iris_request
        (startup False (Inr (stub_classifier [PyInt 0])))) = []"
  using model_unset_unavailable[of "startup False (Inr (stub_classifier [PyInt 0]))"
      stub_externals iris_request]
  by (simp add: startup_failed)

text \<open>
  Claim C5. While the model handle is set, an exception raised by the parsing of the
  body, by the coercion of accepted features, by the classifier's predict, or by any
  other step of the \<open>try\<close> block is caught and reported as status 500 with the JSON
  object \<open>{success: false, error: s}\<close>, where \<open>s\<close> ends with the exception's text.
\<close>

theorem exceptions_reported_as_500:
  assumes "ai_model p = Some m"
  shows "(get_json req = Inl e \<longrightarrow>
            outcome (predict ext req p) =
              Inr \<lparr>status = 500,
                   body = JsonBody (JObject
                     [(''success'', JBool False),
                      (''error'', JString
                         (''Prediction failed due to server error: '' @ exc_str e))])\<rparr>)
       \<and> (get_json req = Inr (JObject kvs) \<and> map_of kvs ''features'' = Some f
            \<and> py_truthy f \<and> py_len f = Inr 4 \<and> np_array ext (JArray [f]) = Inl e \<longrightarrow>
            outcome (predict ext req p) =
              Inr \<lparr>status = 500,
                   body = JsonBody (JObject
                     [(''success'', JBool False),
                      (''error'', JString
                         (''Prediction failed due to server error: '' @ exc_str e))])\<rparr>)
       \<and> (get_json req = Inr (JObject kvs) \<and> map_of kvs ''features'' = Some f
            \<and> py_truthy f \<and> py_len f = Inr 4 \<and> np_array ext (JArray [f]) = Inr a
            \<and> predict_method m a = Inl e \<longrightarrow>
            outcome (predict ext req p) =
              Inr \<lparr>status = 500,
                   body = JsonBody (JObject
                     [(''success'', JBool False),
                      (''error'', JString
                         (''Prediction failed due to server error: '' @ exc_str e))])\<rparr>)
       \<and> (fst (predict_try p m ext req) = Inl e \<longrightarrow>
            outcome (predict ext req p) =
              Inr \<lparr>status = 500,
                   body = JsonBody (JObject
                     [(''success'', JBool False),
                      (''error'', JString
                         (''Prediction failed due to server error: '' @ exc_str e))])\<rparr>)"
proof -
  have parse: "get_json req = Inl e \<Longrightarrow> fst (predict_try p m ext req) = Inl e"
    by (simp add: predict_try_def)
  have coerce: "fst (predict_try p m ext req) = Inl e"
    if "get_json req = Inr (JObject kvs)" "map_of kvs ''features'' = Some f"
      "py_truthy f" "py_len f = Inr 4" "np_array ext (JArray [f]) = Inl e"
    using that(5) by (simp add: predict_try_accepted[OF that(1-4)])
  have infer: "fst (predict_try p m ext req) = Inl e"
    if "get_json req = Inr (JObject kvs)" "map_of kvs ''features'' = Some f"
      "py_truthy f" "py_len f = Inr 4" "np_array ext (JArray [f]) = Inr a"
      "predict_method m a = Inl e"
    using that(5,6) by (simp add: predict_try_accepted[OF that(1-4)])
  have caught: "outcome (predict ext req p) = Inr (server_error e)"
    if "fst (predict_try p m ext req) = Inl e"
    using that by (simp add: outcome_predict_loaded[OF assms])
  show ?thesis
    using parse coerce infer caught
    by (simp add: server_error_def jsonify_def with_status_def)
qed

theorem exceptions_reported_as_500_witness:
  "outcome (predict stub_externals \<lparr>get_json = Inl (PyException ''BadRequest''
        ''400 Bad Request: Failed to decode JSON object'')\<rparr>
        (startup True (Inr (stub_classifier [PyInt 0])))) =
      Inr \<lparr>status = 500,
           body = JsonBody (JObject
             [(''success'', JBool False),
              (''error'', JString ''Prediction failed due to server error: 400 Bad Request: Failed to decode JSON object'')])\<rparr>
   \<and> outcome (predict numpy_externals words_request
        (startup True (Inr (stub_classifier [PyInt 0])))) =
      Inr \<lparr>status = 500,
           body = JsonBody (JObject
             [(''success'', JBool False),
              (''error'', JString (''Prediction failed due to server error: ''
                 @ ''could not convert string to float: '' @ quote @ ''a'' @ quote))])\<rparr>
   \<and> outcome (predict stub_externals iris_request (startup True (Inr failing_classifier))) =
      Inr \<lparr>status = 500,
           body = JsonBody (JObject
             [(''success'', JBool False),
              (''error'', JString ''Prediction failed due to server error: X has 4 features, but the model is expecting 2'')])\<rparr>"
  using exceptions_reported_as_500[of "startup True (Inr (stub_classifier [PyInt 0]))"
      "stub_classifier [PyInt 0]"
      "\<lparr>get_json = Inl (PyException ''BadRequest''
        ''400 Bad Request: Failed to decode JSON object'')\<rparr>"
      "PyException ''BadRequest'' ''400 Bad Request: Failed to decode JSON object''"
      stub_externals]
    exceptions_reported_as_500[of "startup True (Inr (stub_classifier [PyInt 0]))"
      "stub_classifier [PyInt 0]" words_request
      "PyException ''ValueError''
         (''could not convert string to float: '' @ quote @ ''a'' @ quote)"
      numpy_externals
      "[(''features'', JArray [JString ''a'', JString ''b'', JString ''c'', JString ''d''])]"
      "JArray [JString ''a'', JString ''b'', JString ''c'', JString ''d'']"]
    exceptions_reported_as_500[of "startup True (Inr failing_classifier)"
      failing_classifier iris_request
      "PyException ''ValueError'' ''X has 4 features, but the model is expecting 2''"
      stub_externals
      "[(''features'', JArray [JFloat 6.3, JFloat 3.3, JFloat 6.0, JFloat 2.5])]"
      "JArray [JFloat 6.3, JFloat 3.3, JFloat 6.0, JFloat 2.5]"
      "JArray [JArray [JFloat 6.3, JFloat 3.3, JFloat 6.0, JFloat 2.5]]"]
  by (simp add: startup_loaded stub_externals_def numpy_externals_def words_request_def
      iris_request_def failing_classifier_def float_of_string_def unsigned_decimal_def
      digit_def)

text \<open>
  Claim C6 says that the handler returns a response for every request and every model
  state. Every raising step of lines 41 to 65 is inside the \<open>try\<close> block and ends in
  a response (lemma \<open>predict_general_answers\<close>: once the truth test has returned, the
  call is answered with status 200, 400, 500 or 503); the truth test \<open>not ai_model\<close>
  of line 37 is not. When
  \<open>model.joblib\<close> holds an ensemble that was never fitted, the test calls its
  \<open>__len__\<close>, which raises \<open>AttributeError\<close>, and for any request the exception leaves
  the view: the handler returns no response.
\<close>

theorem unfitted_model_escapes:
  "fst (predict_general (as_library stub_externals iris_request)
         (startup True (Inr unfitted_forest), ())) =
     Inl (PyException ''AttributeError''
       (quote @ ''RandomForestClassifier'' @ quote @ '' object has no attribute ''
         @ quote @ ''estimators_'' @ quote))"
  by (simp add: predict_general_def and_then_def read_global_def outside_call_def
      startup_loaded unfitted_forest_def no_estimators_def)

text \<open>
  Claim C7. A call of the prediction handler, for any loaded object and any behaviour
  of the library, leaves the module's state as it found it: the model handle, the class
  label table and the printed lines are the same after the call as before. The
  handler has no effect of its own on the world outside either: when the calls it makes
  (the object's truth test and \<open>predict\<close>, \<open>get_json\<close>, \<open>np.array\<close>, \<open>time.time\<close>)
  leave the world alone, so does the handler. Start-up executes exactly one assignment
  to the handle on each of its paths, and the handle afterwards is the value assigned:
  the loaded object, or \<open>None\<close> when the file is absent or the load raises.
\<close>

theorem predict_frame:
  "fst (snd (predict_general lib (p, w))) = p
   \<and> ai_model (fst (snd (predict_general lib (p, w)))) = ai_model p
   \<and> CLASS_LABELS (fst (snd (predict_general lib (p, w)))) = CLASS_LABELS p
   \<and> ((\<forall>w. snd (request_get_json lib w) = w) \<and> (\<forall>v w. snd (numpy_array lib v w) = w)
        \<and> (\<forall>w. snd (clock lib w) = w)
        \<and> (\<forall>obj. ai_model p = Some obj \<longrightarrow>
              (\<forall>w. snd (truth_value obj w) = w) \<and> (\<forall>a w. snd (predict_call obj a w) = w))
       \<longrightarrow> snd (predict_general lib (p, w)) = (p, w))
   \<and> filter writes_ai_model (startup_statements path_exists joblib_load) =
       [Assign_ai_model (ai_model (startup path_exists joblib_load))]
   \<and> ai_model (startup path_exists joblib_load) =
       (case load_model path_exists joblib_load of Inr m \<Rightarrow> Some m | Inl e \<Rightarrow> None)"
proof -
  have module: "fst (snd (predict_general lib (p, w))) = p"
    using predict_general_keeps_module[of lib] by (simp add: keeps_def)
  have world: "snd (predict_general lib (p, w)) = (p, w)"
    if lib_quiet: "\<forall>w. snd (request_get_json lib w) = w"
        "\<forall>v w. snd (numpy_array lib v w) = w" "\<forall>w. snd (clock lib w) = w"
      and obj_quiet: "\<forall>obj. ai_model p = Some obj \<longrightarrow>
        (\<forall>w. snd (truth_value obj w) = w) \<and> (\<forall>a w. snd (predict_call obj a w) = w)"
  proof (cases "ai_model p")
    case None
    then show ?thesis
      by (simp add: predict_general_def and_then_def read_global_def py_return_def)
  next
    case (Some obj)
    have truth: "outside_call (truth_value obj) (p, w) = (fst (truth_value obj w), (p, w))"
      using obj_quiet Some by (simp add: outside_call_quiet)
    have calls: "outside_call (request_get_json lib) (p, w) =
        (fst (request_get_json lib w), (p, w))"
      "\<And>v. outside_call (numpy_array lib v) (p, w) = (fst (numpy_array lib v w), (p, w))"
      "\<And>a. outside_call (predict_call obj a) (p, w) = (fst (predict_call obj a w), (p, w))"
      "outside_call (clock lib) (p, w) = (fst (clock lib w), (p, w))"
      using lib_quiet obj_quiet Some by (simp_all add: outside_call_quiet)
    have body: "snd (general_try lib (p, w)) = (p, w)"
      using Some
      by (simp add: general_try_def and_then_def read_global_def local_step_def
          py_return_def calls split: sum.splits)
    have "snd (try_except (general_try lib) (\<lambda>e. py_return (server_error e)) (p, w)) = (p, w)"
      using body by (cases "general_try lib (p, w)")
        (simp add: try_except_def py_return_def split: sum.splits)
    then show ?thesis
      using Some
      by (simp add: predict_general_def and_then_def read_global_def py_return_def truth
          split: sum.splits)
  qed
  have once: "filter writes_ai_model (startup_statements path_exists joblib_load) =
      [Assign_ai_model (ai_model (startup path_exists joblib_load))]"
    by (simp add: startup_def startup_statements_def fresh_def split: sum.splits)
  have assigned: "ai_model (startup path_exists joblib_load) =
      (case load_model path_exists joblib_load of Inr m \<Rightarrow> Some m | Inl e \<Rightarrow> None)"
    by (simp add: startup_def startup_statements_def fresh_def split: sum.splits)
  show ?thesis
    using module world once assigned by simp
qed

theorem predict_frame_witness:
  "fst (snd (predict_general counting_library (startup True (Inr counting_object), 0))) =
     startup True (Inr counting_object)
   \<and> snd (snd (predict_general counting_library (startup True (Inr counting_object), 0))) = 5
   \<and> snd (predict_general (as_library stub_externals iris_request)
        (as_general (startup True (Inr (stub_classifier [PyInt 2]))), 0 :: nat)) =
     (as_general (startup True (Inr (stub_classifier [PyInt 2]))), 0)
   \<and> filter writes_ai_model (startup_statements True (Inr counting_object)) =
       [Assign_ai_model (Some counting_object)]"
proof -
  note counting = predict_frame[of counting_library "startup True (Inr counting_object)" 0
      True "Inr counting_object"]
  note quiet = predict_frame[of "as_library stub_externals iris_request"
      "as_general (startup True (Inr (stub_classifier [PyInt 2])))" "0 :: nat"
      True "Inr counting_object"]
  have module: "fst (snd (predict_general counting_library
      (startup True (Inr counting_object), 0))) = startup True (Inr counting_object)"
    using counting by (elim conjE)
  have ticks: "snd (snd (predict_general counting_library
      (startup True (Inr counting_object), 0))) = 5"
    by (simp add: predict_general_def general_try_def and_then_def try_except_def
        read_global_def local_step_def outside_call_def py_return_def startup_loaded
        counting_library_def counting_object_def list_getitem_def)
  have calm: "(\<forall>w. snd (request_get_json
          (as_library stub_externals iris_request :: (json, nat) library) w) = w)
      \<and> (\<forall>v w. snd (numpy_array
          (as_library stub_externals iris_request :: (json, nat) library) v w) = w)
      \<and> (\<forall>w. snd (clock (as_library stub_externals iris_request :: (json, nat) library) w) = w)
      \<and> (\<forall>obj. ai_model (as_general (startup True (Inr (stub_classifier [PyInt 2])))
              :: (json, nat) py_object process) = Some obj
            \<longrightarrow> (\<forall>w. snd (truth_value obj w) = w) \<and> (\<forall>a w. snd (predict_call obj a w) = w))"
    by (auto simp add: as_library_def as_general_def as_object_def startup_loaded)
  note quiet_world = quiet[THEN conjunct2, THEN conjunct2, THEN conjunct2, THEN conjunct1,
      THEN mp, OF calm]
  have once: "filter writes_ai_model (startup_statements True (Inr counting_object)) =
      [Assign_ai_model (ai_model (startup True (Inr counting_object)))]"
    using counting by (elim conjE)
  have once': "filter writes_ai_model (startup_statements True (Inr counting_object)) =
      [Assign_ai_model (Some counting_object)]"
    using once by (simp add: startup_loaded)
  show ?thesis
    using module ticks quiet_world once' by (intro conjI)
qed

text \<open>
  Claim C8. Jinja returns a plain template as it is, in every context. Given that, any
  two calls of the page handler, in whatever request contexts and process states,
  return the same response: status 200 with the template literal, character for
  character; and the call leaves the process state as it found it.
\<close>

theorem index_static:
  assumes "\<forall>t c. plain_template t \<longrightarrow> render t c = Inr t"
  shows "outcome (index render c1 p1) = outcome (index render c2 p2)
       \<and> outcome (index render c1 p1) = Inr \<lparr>status = 200, body = HtmlBody html_content\<rparr>
       \<and> after (index render c1 p1) = p1"
proof -
  have same: "render html_content c = Inr html_content" for c
    using assms plain_html_content by simp
  show ?thesis by (simp add: index_def same)
qed

theorem index_static_witness:
  "outcome (index context_renderer ''alice''
      (startup True (Inr (stub_classifier [PyInt 0]) :: py_exception + json classifier))) =
     outcome (index context_renderer ''bob''
      (startup False (Inr (stub_classifier [PyInt 1]) :: py_exception + json classifier)))
   \<and> outcome (index context_renderer ''alice''
      (startup True (Inr (stub_classifier [PyInt 0]) :: py_exception + json classifier))) =
     Inr \<lparr>status = 200, body = HtmlBody html_content\<rparr>
   \<and> after (index context_renderer ''alice''
      (startup True (Inr (stub_classifier [PyInt 0]) :: py_exception + json classifier))) =
     startup True (Inr (stub_classifier [PyInt 0]))
   \<and> context_renderer ''{{ user }}'' ''alice'' \<noteq> context_renderer ''{{ user }}'' ''bob''"
proof -
  have law: "\<forall>t c. plain_template t \<longrightarrow> context_renderer t c = Inr t"
    by (simp add: context_renderer_def)
  have reads: "context_renderer ''{{ user }}'' ''alice'' \<noteq> context_renderer ''{{ user }}'' ''bob''"
    by (simp add: context_renderer_def plain_template_def)
  show ?thesis
    using index_static[OF law, of "''alice''"
        "startup True (Inr (stub_classifier [PyInt 0]) :: py_exception + json classifier)"
        "''bob''"
        "startup False (Inr (stub_classifier [PyInt 1]) :: py_exception + json classifier)"]
      reads
    by blast
qed

text \<open>
  Claim C9. With the table of the three iris labels, a classifier output of -1, -2 or
  -3 for an accepted 4-element request does not fail: the lookup counts from the end
  of the table, and the answer is status 200 with \<open>success: true\<close>, the negative
  \<open>prediction_index\<close>, and the label Virginica for -1, Versicolor for -2, Setosa
  for -3.
\<close>

theorem negative_index_wraps:
  assumes "ai_model p = Some m"
    and "CLASS_LABELS p = [''Setosa'', ''Versicolor'', ''Virginica'']"
    and "get_json req = Inr (JObject kvs)"
    and "map_of kvs ''features'' = Some (JArray fs)"
    and "length fs = 4"
    and "np_array ext (JArray [JArray fs]) = Inr a"
    and "predict_method m a = Inr (PyInt i # rest)"
    and "i \<in> {- 1, - 2, - 3}"
  shows "outcome (predict ext req p) =
      Inr \<lparr>status = 200,
           body = JsonBody (JObject
             [(''success'', JBool True),
              (''prediction_index'', JInt i),
              (''predicted_label'', JString
                 (if i = - 1 then ''Virginica'' else if i = - 2 then ''Versicolor''
                  else ''Setosa'')),
              (''timestamp'', JInt (int_of_float (time_time ext)))])\<rparr>
     \<and> i < 0"
proof -
  have len: "py_len (JArray fs) = Inr 4" and tr: "py_truthy (JArray fs)"
    using assms(5) by auto
  have look: "list_getitem (CLASS_LABELS p) i =
      Inr (if i = - 1 then ''Virginica'' else if i = - 2 then ''Versicolor'' else ''Setosa'')"
    using assms(2,8) by (auto simp add: list_getitem_def)
  show ?thesis
    using assms(1,6,7,8) look
    by (auto simp add: outcome_predict_loaded predict_try_accepted[OF assms(3,4) tr len]
        prediction_result_def jsonify_def)
qed

theorem negative_index_wraps_witness:
  "outcome (predict stub_externals iris_request
        (startup True (Inr (stub_classifier [PyInt (- 1)])))) =
      Inr \<lparr>status = 200,
           body = JsonBody (JObject
             [(''success'', JBool True),
              (''prediction_index'', JInt (- 1)),
              (''predicted_label'', JString ''Virginica''),
              (''timestamp'', JInt 1762200000)])\<rparr>"
  using negative_index_wraps[of "startup True (Inr (stub_classifier [PyInt (- 1)]))"
      "stub_classifier [PyInt (- 1)]" iris_request
      "[(''features'', JArray [JFloat 6.3, JFloat 3.3, JFloat 6.0, JFloat 2.5])]"
      "[JFloat 6.3, JFloat 3.3, JFloat 6.0, JFloat 2.5]" stub_externals
      "JArray [JArray [JFloat 6.3, JFloat 3.3, JFloat 6.0, JFloat 2.5]]" "- 1" "[]"]
  by (simp add: startup_loaded stub_externals_def stub_classifier_def iris_request_def
      int_of_float_def)

text \<open>
  Claim C10, as stated: a \<open>features\<close> value of 4 elements that are not numbers passes
  validation and then fails in coercion or inference, with status 500. Four strings of
  digits are not numbers and pass validation, but numpy reads them as floats and the
  classifier answers: the response is status 200. So it is for three numbers and a
  boolean.
\<close>

theorem arity_only_validation_counterexample:
  "\<not> is_four_numbers (JArray [JString ''1'', JString ''2'', JString ''3'', JString ''4''])
   \<and> outcome (predict numpy_externals digits_request
        (startup True (Inr (stub_classifier [PyInt 0])))) =
      Inr \<lparr>status = 200,
           body = JsonBody (JObject
             [(''success'', JBool True),
              (''prediction_index'', JInt 0),
              (''predicted_label'', JString ''Setosa''),
              (''timestamp'', JInt 1762200000)])\<rparr>
   \<and> \<not> is_four_numbers (JArray [JInt 1, JInt 2, JInt 3, JBool True])
   \<and> outcome (predict numpy_externals mixed_request
        (startup True (Inr (stub_classifier [PyInt 0])))) =
      Inr \<lparr>status = 200,
           body = JsonBody (JObject
             [(''success'', JBool True),
              (''prediction_index'', JInt 0),
              (''predicted_label'', JString ''Setosa''),
              (''timestamp'', JInt 1762200000)])\<rparr>"
proof -
  let ?p = "startup True (Inr (stub_classifier [PyInt 0])) :: ndarray classifier process"
  have loaded: "ai_model ?p = Some (stub_classifier [PyInt 0])"
    and labels: "CLASS_LABELS ?p = [''Setosa'', ''Versicolor'', ''Virginica'']"
    by (simp_all add: startup_loaded)
  have answers: "predict_method (stub_classifier [PyInt 0]) a = Inr [PyInt 0]" for a :: ndarray
    by (simp add: stub_classifier_def)
  have setosa: "list_getitem [''Setosa'', ''Versicolor'', ''Virginica''] 0 = Inr ''Setosa''"
    by (simp add: list_getitem_def)
  have now: "int_of_float (time_time numpy_externals) = 1762200000"
    by (simp add: numpy_externals_def int_of_float_def)
  have digits_body: "get_json digits_request = Inr (JObject [(''features'',
      JArray [JString ''1'', JString ''2'', JString ''3'', JString ''4''])])"
    by (simp add: digits_request_def)
  have mixed_body: "get_json mixed_request = Inr (JObject [(''features'',
      JArray [JInt 1, JInt 2, JInt 3, JBool True])])"
    by (simp add: mixed_request_def)
  have digits: "outcome (predict numpy_externals digits_request ?p) =
      Inr (prediction_result 0 ''Setosa'' (time_time numpy_externals))"
    by (simp add: outcome_predict_loaded[OF loaded] predict_try_accepted[OF digits_body]
        digits_row answers labels setosa)
  have mixed: "outcome (predict numpy_externals mixed_request ?p) =
      Inr (prediction_result 0 ''Setosa'' (time_time numpy_externals))"
    by (simp add: outcome_predict_loaded[OF loaded] predict_try_accepted[OF mixed_body]
        mixed_row answers labels setosa)
  show ?thesis
    using digits mixed now
    by (simp add: is_four_numbers_def prediction_result_def jsonify_def)
qed

text \<open>
  Claim C10, amended. The input check looks at presence, truthiness and arity only.
  While the model handle is set, a \<open>features\<close> value that is truthy and has length 4,
  whatever its elements are, is never answered with status 400. What follows depends
  on numpy and the classifier: when the coercion or the classifier raises, the answer
  is status 500 with the exception's text, the failure coming after validation; when
  they return an index into the label table, the answer is status 200.
\<close>

theorem arity_only_validation:
  assumes "ai_model p = Some m"
    and "get_json req = Inr (JObject kvs)"
    and "map_of kvs ''features'' = Some f"
    and "py_truthy f" and "py_len f = Inr 4"
  shows "(\<forall>r. outcome (predict ext req p) = Inr r \<longrightarrow> status r \<noteq> 400)
       \<and> (np_array ext (JArray [f]) = Inl e \<longrightarrow>
            outcome (predict ext req p) =
              Inr \<lparr>status = 500,
                   body = JsonBody (JObject
                     [(''success'', JBool False),
                      (''error'', JString
                         (''Prediction failed due to server error: '' @ exc_str e))])\<rparr>
            \<and> calls (predict ext req p) = [Call_get_json, Call_np_array])
       \<and> (np_array ext (JArray [f]) = Inr a \<and> predict_method m a = Inl e \<longrightarrow>
            outcome (predict ext req p) =
              Inr \<lparr>status = 500,
                   body = JsonBody (JObject
                     [(''success'', JBool False),
                      (''error'', JString
                         (''Prediction failed due to server error: '' @ exc_str e))])\<rparr>
            \<and> calls (predict ext req p) = [Call_get_json, Call_np_array, Call_model_predict])
       \<and> (np_array ext (JArray [f]) = Inr a \<and> predict_method m a = Inr (PyInt i # rest)
            \<and> list_getitem (CLASS_LABELS p) i = Inr label \<longrightarrow>
            outcome (predict ext req p) =
              Inr \<lparr>status = 200,
                   body = JsonBody (JObject
                     [(''success'', JBool True),
                      (''prediction_index'', JInt i),
                      (''predicted_label'', JString label),
                      (''timestamp'', JInt (int_of_float (time_time ext)))])\<rparr>)"
proof -
  note tail = predict_try_accepted[OF assms(2-5)]
  have not400: "\<forall>r. outcome (predict ext req p) = Inr r \<longrightarrow> status r \<noteq> 400"
    by (auto simp add: outcome_predict_loaded[OF assms(1)] tail status_simps split: sum.splits)
  have coerce: "np_array ext (JArray [f]) = Inl e \<Longrightarrow>
      outcome (predict ext req p) = Inr (server_error e)
      \<and> calls (predict ext req p) = [Call_get_json, Call_np_array]"
    by (simp add: outcome_predict_loaded[OF assms(1)] calls_predict_loaded[OF assms(1)] tail)
  have infer: "np_array ext (JArray [f]) = Inr a \<Longrightarrow> predict_method m a = Inl e \<Longrightarrow>
      outcome (predict ext req p) = Inr (server_error e)
      \<and> calls (predict ext req p) = [Call_get_json, Call_np_array, Call_model_predict]"
    by (simp add: outcome_predict_loaded[OF assms(1)] calls_predict_loaded[OF assms(1)] tail)
  have answer: "np_array ext (JArray [f]) = Inr a \<Longrightarrow>
      predict_method m a = Inr (PyInt i # rest) \<Longrightarrow>
      list_getitem (CLASS_LABELS p) i = Inr label \<Longrightarrow>
      outcome (predict ext req p) = Inr (prediction_result i label (time_time ext))"
    by (simp add: outcome_predict_loaded[OF assms(1)] tail)
  show ?thesis
    using not400 coerce infer answer
    by (simp add: server_error_def prediction_result_def jsonify_def with_status_def)
qed

theorem arity_only_validation_witness:
  "\<not> is_four_numbers (JArray [JString ''a'', JString ''b'', JString ''c'', JString ''d''])
   \<and> outcome (predict numpy_externals words_request
        (startup True (Inr (stub_classifier [PyInt 0])))) =
      Inr \<lparr>status = 500,
           body = JsonBody (JObject
             [(''success'', JBool False),
              (''error'', JString (''Prediction failed due to server error: ''
                 @ ''could not convert string to float: '' @ quote @ ''a'' @ quote))])\<rparr>
   \<and> calls (predict numpy_externals words_request
        (startup True (Inr (stub_classifier [PyInt 0])))) = [Call_get_json, Call_np_array]
   \<and> outcome (predict numpy_externals digits_request
        (startup True (Inr (stub_classifier [PyInt 1])))) =
      Inr \<lparr>status = 200,
           body = JsonBody (JObject
             [(''success'', JBool True),
              (''prediction_index'', JInt 1),
              (''predicted_label'', JString ''Versicolor''),
              (''timestamp'', JInt 1762200000)])\<rparr>"
proof -
  let ?p0 = "startup True (Inr (stub_classifier [PyInt 0])) :: ndarray classifier process"
  let ?p1 = "startup True (Inr (stub_classifier [PyInt 1])) :: ndarray classifier process"
  let ?words = "JArray [JString ''a'', JString ''b'', JString ''c'', JString ''d'']"
  let ?digits = "JArray [JString ''1'', JString ''2'', JString ''3'', JString ''4'']"
  have loaded: "ai_model ?p0 = Some (stub_classifier [PyInt 0])"
    "ai_model ?p1 = Some (stub_classifier [PyInt 1])"
    by (simp_all add: startup_loaded)
  have words_body: "get_json words_request = Inr (JObject [(''features'', ?words)])"
    and digits_body: "get_json digits_request = Inr (JObject [(''features'', ?digits)])"
    by (simp_all add: words_request_def digits_request_def)
  have found: "map_of [(''features'', ?words)] ''features'' = Some ?words"
    "map_of [(''features'', ?digits)] ''features'' = Some ?digits"
    by simp_all
  have sized: "py_truthy ?words" "py_len ?words = Inr 4" "py_truthy ?digits"
    "py_len ?digits = Inr 4"
    by simp_all
  have answers: "predict_method (stub_classifier [PyInt 1])
      (Axis [Axis [Scalar (Finite 1), Scalar (Finite 2), Scalar (Finite 3), Scalar (Finite 4)]]) =
      Inr (PyInt 1 # [])"
    by (simp add: stub_classifier_def)
  have versicolor: "list_getitem (CLASS_LABELS ?p1) 1 = Inr ''Versicolor''"
    by (simp add: startup_loaded list_getitem_def)
  have now: "int_of_float (time_time numpy_externals) = 1762200000"
    by (simp add: numpy_externals_def int_of_float_def)
  note refused = arity_only_validation[OF loaded(1) words_body found(1) sized(1,2),
      THEN conjunct2, THEN conjunct1, THEN mp, OF words_row]
  note answered = arity_only_validation[OF loaded(2) digits_body found(2) sized(3,4),
      THEN conjunct2, THEN conjunct2, THEN conjunct2, THEN mp,
      OF conjI[OF digits_row conjI[OF answers versicolor]]]
  show ?thesis
    using refused answered now by (simp add: is_four_numbers_def)
qed

end
